theory Spec2Isabelle
  imports Complex_Main
begin

section \<open>Python values and errors\<close>

text \<open>
  The values that flow through the generic parts of \<^verbatim>\<open>data.py\<close> (the type variable
  \<^verbatim>\<open>T\<close> of \<^verbatim>\<open>ScheduledEvent\<close>, the values of the cache) are dynamically typed.
  \<open>PObj\<close> stands for an object whose class defines neither \<^verbatim>\<open>__bool__\<close> nor
  \<^verbatim>\<open>__len__\<close> (a \<^verbatim>\<open>datetime\<close>, a \<^verbatim>\<open>Position\<close>): Python treats it as true.
\<close>

datatype pyval =
    PNone
  | PBool bool
  | PInt int
  | PStr string
  | PList "pyval list"
  | PObj nat

text \<open>Python's truth value testing, as used by \<^verbatim>\<open>or\<close>.\<close>

fun truthy :: "pyval \<Rightarrow> bool" where
  "truthy PNone = False"
| "truthy (PBool b) = b"
| "truthy (PInt i) = (i \<noteq> 0)"
| "truthy (PStr s) = (s \<noteq> [])"
| "truthy (PList xs) = (xs \<noteq> [])"
| "truthy (PObj _) = True"

text \<open>\<^verbatim>\<open>a or b\<close>: the first operand if it is true, else the second.\<close>

definition py_or :: "pyval \<Rightarrow> pyval \<Rightarrow> pyval" where
  "py_or a b = (if truthy a then a else b)"

text \<open>
  The exceptions the modelled code can raise or let through. \<open>APIConnectionError\<close> is the
  repository's connectivity error; \<open>OtherException\<close> is any exception that is not an
  \<open>APIConnectionError\<close>.
\<close>

datatype py_error =
    TypeError
  | RuntimeError
  | APIConnectionError string
  | OtherException string

section \<open>ScheduledEvent\<close>

record ScheduledEvent =
  scheduled :: pyval
  actual :: pyval

text \<open>
  \<^verbatim>\<open>def __init__(self, scheduled, actual=None)\<close>:
  \<^verbatim>\<open>self.scheduled = scheduled; self.actual = actual or scheduled\<close>.
\<close>

definition ScheduledEvent_init :: "pyval \<Rightarrow> pyval \<Rightarrow> ScheduledEvent" where
  "ScheduledEvent_init s a = \<lparr>scheduled = s, actual = py_or a s\<rparr>"

text \<open>The call with the default argument, \<^verbatim>\<open>ScheduledEvent(s)\<close>.\<close>

definition ScheduledEvent_init_default :: "pyval \<Rightarrow> ScheduledEvent" where
  "ScheduledEvent_init_default s = ScheduledEvent_init s PNone"

section \<open>Position\<close>

text \<open>
  Coordinates are Python floats; they are modelled as exact rationals, which is enough here
  because no claim depends on rounding. \<open>None\<close> in an optional field is Python's \<^verbatim>\<open>None\<close>.
\<close>

record Position =
  p_latitude :: rat
  p_longitude :: rat
  p_altitude :: "rat option"
  p_heading :: "rat option"

text \<open>\<^verbatim>\<open>Position(latitude, longitude, altitude=None, heading=None)\<close>.\<close>

definition Position_init :: "rat \<Rightarrow> rat \<Rightarrow> rat option \<Rightarrow> rat option \<Rightarrow> Position" where
  "Position_init lat lon alt hdg =
     \<lparr>p_latitude = lat, p_longitude = lon, p_altitude = alt, p_heading = hdg\<rparr>"

text \<open>
  The builtin \<^verbatim>\<open>float(x)\<close> on a float returns it; on \<^verbatim>\<open>None\<close> it raises
  \<^verbatim>\<open>TypeError\<close>.
\<close>

definition py_float :: "rat option \<Rightarrow> py_error + rat" where
  "py_float x = (case x of None \<Rightarrow> Inl TypeError | Some v \<Rightarrow> Inr v)"

text \<open>The four properties: each is \<^verbatim>\<open>return float(self._field)\<close>.\<close>

definition latitude :: "Position \<Rightarrow> py_error + rat" where
  "latitude p = py_float (Some (p_latitude p))"

definition longitude :: "Position \<Rightarrow> py_error + rat" where
  "longitude p = py_float (Some (p_longitude p))"

definition altitude :: "Position \<Rightarrow> py_error + rat" where
  "altitude p = py_float (p_altitude p)"

definition bearing :: "Position \<Rightarrow> py_error + rat" where
  "bearing p = py_float (p_heading p)"

text \<open>Sequencing of calls that may raise: the first exception ends the evaluation.\<close>

definition and_then :: "py_error + 'a \<Rightarrow> ('a \<Rightarrow> py_error + 'b) \<Rightarrow> py_error + 'b" where
  "and_then r k = (case r of Inl e \<Rightarrow> Inl e | Inr v \<Rightarrow> k v)"

text \<open>
  \<^verbatim>\<open>Position.__str__\<close>. The helper \<^verbatim>\<open>coordinates_decimal_to_dms\<close> lives in a module
  that is not part of the sources at hand, and the formatting of floats is not what the
  claims are about, so both are parameters: \<open>to_dms\<close> is the helper (it may raise),
  \<open>fmt_coords\<close> renders the two degree/minute/second triples, \<open>fmt_alt\<close> and
  \<open>fmt_bearing\<close> render the two optional suffixes. The order of evaluation is the
  source's: the helper call (which reads latitude and longitude), the two coordinate
  f-strings, then the test \<^verbatim>\<open>self.altitude is not None\<close>, which calls the property;
  a float is never \<^verbatim>\<open>None\<close>, so when the property returns, the suffix is rendered
  with a second read of the property; then the same for \<^verbatim>\<open>self.bearing\<close>.
\<close>

definition Position_str ::
  "(rat \<times> rat \<Rightarrow> py_error + 'd) \<Rightarrow> ('d \<Rightarrow> string) \<Rightarrow> (rat \<Rightarrow> string) \<Rightarrow> (rat \<Rightarrow> string)
     \<Rightarrow> Position \<Rightarrow> py_error + string" where
  "Position_str to_dms fmt_coords fmt_alt fmt_bearing p =
     and_then (latitude p) (\<lambda>lat.
     and_then (longitude p) (\<lambda>lon.
     and_then (to_dms (lat, lon)) (\<lambda>d.
     and_then (altitude p) (\<lambda>_.
     and_then (altitude p) (\<lambda>a.
     and_then (bearing p) (\<lambda>_.
     and_then (bearing p) (\<lambda>b.
       Inr (fmt_coords d @ fmt_alt a @ fmt_bearing b))))))))"

section \<open>DataConnector\<close>

text \<open>
  \<^verbatim>\<open>DataStorage\<close> is a \<^verbatim>\<open>UserDict\<close> with string keys: a finite map. The class
  \<^verbatim>\<open>DataConnector\<close> has the one field \<^verbatim>\<open>_data\<close>; \<^verbatim>\<open>PollingDataConnector\<close> extends it
  below.
\<close>

record DataConnector =
  data :: "string \<rightharpoonup> pyval"

text \<open>\<^verbatim>\<open>DataConnector.__init__\<close>: \<^verbatim>\<open>self._data = DataStorage()\<close>.\<close>

definition DataConnector_init :: "'a DataConnector_scheme \<Rightarrow> 'a DataConnector_scheme" where
  "DataConnector_init c = c\<lparr>data := Map.empty\<rparr>"

text \<open>A freshly constructed plain connector.\<close>

definition new_DataConnector :: DataConnector where
  "new_DataConnector = \<lparr>data = Map.empty\<rparr>"

text \<open>\<^verbatim>\<open>load\<close>: \<^verbatim>\<open>return self._data.get(key, __default)\<close>.\<close>

definition load :: "'a DataConnector_scheme \<Rightarrow> string \<Rightarrow> pyval \<Rightarrow> pyval" where
  "load c key dflt = (case data c key of None \<Rightarrow> dflt | Some v \<Rightarrow> v)"

text \<open>\<^verbatim>\<open>store\<close>: \<^verbatim>\<open>self._data[key] = value\<close>.\<close>

definition store :: "string \<Rightarrow> pyval \<Rightarrow> 'a DataConnector_scheme \<Rightarrow> 'a DataConnector_scheme" where
  "store key v c = c\<lparr>data := (data c)(key \<mapsto> v)\<rparr>"

text \<open>A sequence of \<^verbatim>\<open>store\<close> calls, in order.\<close>

definition store_all ::
  "(string \<times> pyval) list \<Rightarrow> 'a DataConnector_scheme \<Rightarrow> 'a DataConnector_scheme" where
  "store_all kvs c = fold (\<lambda>(k, v). store k v) kvs c"

text \<open>
  \<^verbatim>\<open>DummyDataConnector\<close> is a \<^verbatim>\<open>DataConnector\<close> that overrides \<^verbatim>\<open>load\<close>:
  \<^verbatim>\<open>return 'Dummy value'\<close>. It inherits \<^verbatim>\<open>store\<close>.
\<close>

definition DummyDataConnector_load :: "'a DataConnector_scheme \<Rightarrow> string \<Rightarrow> pyval \<Rightarrow> pyval" where
  "DummyDataConnector_load c key dflt = PStr ''Dummy value''"

section \<open>PollingDataConnector\<close>

text \<open>
  \<^verbatim>\<open>PollingDataConnector(DataConnector, threading.Thread)\<close>. Besides the cache it has the
  two flags \<^verbatim>\<open>_running\<close> and \<^verbatim>\<open>_connected\<close> and the state of the thread object it
  inherits: the callable the thread runs (\<^verbatim>\<open>_target\<close>; the only one ever passed is
  \<^verbatim>\<open>self._run\<close>), the name and the daemon flag as passed to \<^verbatim>\<open>Thread.__init__\<close>
  (\<open>None\<close>: not passed, so the library picks a generated name and inherits the daemon
  flag of the creating thread), whether the thread has been started, and whether it is alive.
\<close>

datatype thread_target = Run

record PollingDataConnector = DataConnector +
  running :: bool
  connected_flag :: bool
  target :: "thread_target option"
  thread_name :: "string option"
  daemon :: "bool option"
  started :: bool
  alive :: bool

text \<open>
  \<^verbatim>\<open>threading.Thread.__init__(self, target=None, name=None, daemon=None)\<close> of the standard
  library: it records its arguments and makes the thread object one that has not been
  started.
\<close>

definition Thread_init ::
  "thread_target option \<Rightarrow> string option \<Rightarrow> bool option \<Rightarrow>
   'a PollingDataConnector_scheme \<Rightarrow> 'a PollingDataConnector_scheme" where
  "Thread_init tgt nm dm c =
     c\<lparr>target := tgt, thread_name := nm, daemon := dm, started := False, alive := False\<rparr>"

text \<open>
  \<^verbatim>\<open>PollingDataConnector.__init__\<close>, with the class attribute \<^verbatim>\<open>API_URL\<close> as a
  parameter: \<^verbatim>\<open>DataConnector.__init__(self)\<close>, then
  \<^verbatim>\<open>threading.Thread.__init__(self, target=self._run, name=f"DataConnector-Runner for '{self.API_URL}'", daemon=True)\<close>,
  then \<^verbatim>\<open>self._running = False\<close> and \<^verbatim>\<open>self._connected = False\<close>.
\<close>

definition runner_name :: "string \<Rightarrow> string" where
  "runner_name api_url = ''DataConnector-Runner for '' @ [CHR 0x27] @ api_url @ [CHR 0x27]"

definition PollingDataConnector_init ::
  "string \<Rightarrow> PollingDataConnector \<Rightarrow> PollingDataConnector" where
  "PollingDataConnector_init api_url c =
     (Thread_init (Some Run) (Some (runner_name api_url)) (Some True) (DataConnector_init c))
       \<lparr>running := False, connected_flag := False\<rparr>"

text \<open>
  A freshly constructed connector: the initialiser assigns every field, so the object it
  starts from does not matter.
\<close>

definition new_PollingDataConnector :: "string \<Rightarrow> PollingDataConnector" where
  "new_PollingDataConnector api_url =
     PollingDataConnector_init api_url
       \<lparr>data = Map.empty, running = False, connected_flag = False, target = None,
        thread_name = None, daemon = None, started = False, alive = False\<rparr>"

text \<open>The property \<^verbatim>\<open>connected\<close>: \<^verbatim>\<open>return self._connected and self._running\<close>.\<close>

definition connected :: "'a PollingDataConnector_scheme \<Rightarrow> bool" where
  "connected c = (connected_flag c \<and> running c)"

subsection \<open>The polling loop\<close>

text \<open>
  What the loop does to the outside is recorded as a trace: a call of
  \<^verbatim>\<open>time.sleep(1 / tps)\<close>, a call of \<^verbatim>\<open>self.refresh()\<close>, a message logged at error
  level.
\<close>

datatype event = Sleep | Refresh | Log string

text \<open>
  The state of the running loop: the connector, the local variable \<^verbatim>\<open>counter\<close>, and the
  trace so far.
\<close>

record loop_state =
  conn :: PollingDataConnector
  counter :: int
  trace :: "event list"

text \<open>
  \<^verbatim>\<open>refresh\<close> is abstract. One call of it is given by what it does: the \<^verbatim>\<open>store\<close>
  calls it makes, in order, and the exception it ends with, if any. One pass through the
  loop body that reaches \<^verbatim>\<open>refresh\<close> reads the clock (\<^verbatim>\<open>time.time_ns()\<close>, in
  nanoseconds) before and after; a pass that only sleeps reads none of this.
\<close>

record refresh_call =
  stores :: "(string \<times> pyval) list"
  raises :: "py_error option"

record cycle =
  clock_start :: int
  refresh :: refresh_call
  clock_end :: int

text \<open>\<^verbatim>\<open>tps = 20\<close>: thread join checks per second.\<close>

definition tps :: int where
  "tps = 20"

text \<open>
  The builtin \<^verbatim>\<open>int(x)\<close> on a float truncates towards zero. Floats are modelled as exact
  rationals.
\<close>

definition py_int :: "rat \<Rightarrow> int" where
  "py_int x = (if 0 \<le> x then \<lfloor>x\<rfloor> else \<lceil>x\<rceil>)"

text \<open>
  \<^verbatim>\<open>counter = (tps - int(max(0.0, (target - time.time_ns()) / 1e9) * tps)) % tps\<close>.
  Python's \<^verbatim>\<open>%\<close> with a positive right operand is \<open>mod\<close> on \<open>int\<close>.
\<close>

definition next_counter :: "int \<Rightarrow> int \<Rightarrow> int" where
  "next_counter tgt now =
     (tps - py_int (max 0 (rat_of_int (tgt - now) / 1000000000) * rat_of_int tps)) mod tps"

text \<open>
  One pass through the body of \<^verbatim>\<open>while self._running\<close>, after the test has passed.
  It ends at a \<^verbatim>\<open>continue\<close> or at the end of the body (\<open>Continue\<close>), or an exception
  leaves the loop (\<open>Raise\<close>).
\<close>

datatype body_result = Continue loop_state | Raise py_error loop_state

definition run_body :: "cycle \<Rightarrow> loop_state \<Rightarrow> body_result" where
  "run_body cy s =
     (if counter s \<noteq> 0 then
        Continue (s\<lparr>counter := (counter s + 1) mod tps, trace := trace s @ [Sleep]\<rparr>)
      else
        let tgt = clock_start cy + 1000000000;
            s1 = s\<lparr>conn := store_all (stores (refresh cy)) (conn s),
                   trace := trace s @ [Refresh]\<rparr>
        in case raises (refresh cy) of
             None \<Rightarrow>
               Continue (s1\<lparr>conn := (conn s1)\<lparr>connected_flag := True\<rparr>,
                            counter := next_counter tgt (clock_end cy)\<rparr>)
           | Some (APIConnectionError m) \<Rightarrow> Continue (s1\<lparr>trace := trace s1 @ [Log m]\<rparr>)
           | Some e \<Rightarrow> Raise e s1)"

text \<open>
  The loop. Nothing in the body changes \<^verbatim>\<open>_running\<close>, so a loop that has started its
  passes goes on for ever unless another thread clears the flag; the list gives the passes
  made so far. \<open>Returned\<close>: the test \<^verbatim>\<open>self._running\<close> failed and \<^verbatim>\<open>_run\<close> returned.
  \<open>Raised\<close>: an exception left \<^verbatim>\<open>_run\<close>. \<open>Looping\<close>: all the passes given were made and
  the loop is still going.
\<close>

datatype run_result = Returned loop_state | Raised py_error loop_state | Looping loop_state

fun run_loop :: "cycle list \<Rightarrow> loop_state \<Rightarrow> run_result" where
  "run_loop [] s = (if running (conn s) then Looping s else Returned s)"
| "run_loop (cy # cys) s =
     (if running (conn s) then
        (case run_body cy s of
           Continue s' \<Rightarrow> run_loop cys s'
         | Raise e s' \<Rightarrow> Raised e s')
      else Returned s)"

text \<open>\<^verbatim>\<open>_run\<close>: \<^verbatim>\<open>tps = 20; counter = 0; while self._running: ...\<close>.\<close>

definition run :: "cycle list \<Rightarrow> PollingDataConnector \<Rightarrow> run_result" where
  "run cys c = run_loop cys \<lparr>conn = c, counter = 0, trace = []\<rparr>"

subsection \<open>The thread: start, stop, reset\<close>

text \<open>
  \<^verbatim>\<open>start\<close> is not overridden: it is \<^verbatim>\<open>threading.Thread.start\<close>, which raises
  \<^verbatim>\<open>RuntimeError\<close> for a thread object that has been started, and otherwise has the new
  thread call \<^verbatim>\<open>Thread.run\<close>, which calls the target if there is one. The thread is
  alive until \<^verbatim>\<open>run\<close> returns or raises.
\<close>

definition Thread_run :: "cycle list \<Rightarrow> PollingDataConnector \<Rightarrow> run_result" where
  "Thread_run cys c =
     (case target c of
        None \<Rightarrow> Returned \<lparr>conn = c, counter = 0, trace = []\<rparr>
      | Some Run \<Rightarrow> run cys c)"

definition thread_exit :: "loop_state \<Rightarrow> loop_state" where
  "thread_exit s = s\<lparr>conn := (conn s)\<lparr>alive := False\<rparr>\<rparr>"

fun settle :: "run_result \<Rightarrow> run_result" where
  "settle (Returned s) = Returned (thread_exit s)"
| "settle (Raised e s) = Raised e (thread_exit s)"
| "settle (Looping s) = Looping s"

definition start :: "cycle list \<Rightarrow> PollingDataConnector \<Rightarrow> py_error + run_result" where
  "start cys c =
     (if started c then Inl RuntimeError
      else Inr (settle (Thread_run cys (c\<lparr>started := True, alive := True\<rparr>))))"

text \<open>
  \<^verbatim>\<open>Thread.join\<close> waits until the thread has ended. When the caller clears
  \<^verbatim>\<open>_running\<close> the loop thread is either at the test of the \<^verbatim>\<open>while\<close>, or in a pass
  through the body that it entered before; \<open>inflight\<close> is that pass, if any. The loop
  finishes the pass, then the test fails and the thread ends.
\<close>

definition join :: "cycle option \<Rightarrow> loop_state \<Rightarrow> loop_state" where
  "join inflight s =
     (case inflight of
        None \<Rightarrow> thread_exit s
      | Some cy \<Rightarrow>
          (case run_body cy s of
             Continue s' \<Rightarrow> thread_exit s'
           | Raise e s' \<Rightarrow> thread_exit s'))"

text \<open>\<^verbatim>\<open>stop\<close>: \<^verbatim>\<open>self._running = False; if self.is_alive(): self.join()\<close>.\<close>

definition stop :: "cycle option \<Rightarrow> loop_state \<Rightarrow> loop_state" where
  "stop inflight s =
     (let s1 = s\<lparr>conn := (conn s)\<lparr>running := False\<rparr>\<rparr>
      in if alive (conn s1) then join inflight s1 else s1)"

text \<open>
  \<^verbatim>\<open>reset\<close>: \<^verbatim>\<open>self.stop(); threading.Thread.__init__(self); DataConnector.__init__(self); self._connected = False\<close>.
  The call of \<^verbatim>\<open>Thread.__init__\<close> passes no argument.
\<close>

definition reset :: "cycle option \<Rightarrow> loop_state \<Rightarrow> loop_state" where
  "reset inflight s =
     (let s1 = stop inflight s
      in s1\<lparr>conn := (DataConnector_init (Thread_init None None None (conn s1)))
                       \<lparr>connected_flag := False\<rparr>\<rparr>)"

section \<open>The lazily loaded connections of a station\<close>

text \<open>
  \<^verbatim>\<open>Station\<close>, with the fields the property \<^verbatim>\<open>connections\<close> reads; platform, arrival,
  departure, position and distance play no part in it. The type \<open>'c\<close> is
  \<^verbatim>\<open>ConnectingTrain\<close>; \<open>None\<close> in \<open>connections_field\<close> is Python's \<^verbatim>\<open>None\<close>.
\<close>

record ('i, 'c) Station =
  station_id :: 'i
  station_name :: string
  connections_field :: "'c list option"

text \<open>
  The callback \<^verbatim>\<open>lazy_func\<close> talks to the outside: it is a function of the station id
  and of the state \<open>'w\<close> of the outside, and returns the connections or \<^verbatim>\<open>None\<close>, or
  raises. The environment of a read also counts the calls of the callback.
\<close>

type_synonym ('i, 'c, 'w) lazy_func = "'i \<Rightarrow> 'w \<Rightarrow> (py_error + 'c list option) \<times> 'w"

record 'w fetch_env =
  world :: 'w
  calls :: nat

record ('i, 'c, 'w) LazyStation = "('i, 'c) Station" +
  lazy_func :: "('i, 'c, 'w) lazy_func option"
  cache_valid_until :: rat
  cache_timeout :: int

text \<open>
  \<^verbatim>\<open>_LazyStation.__init__(*args, lazy_func=None, _cache_timeout=60, **kwargs)\<close>:
  the fields of the station, then \<^verbatim>\<open>self._cache_valid_until = 0\<close>.
\<close>

definition LazyStation_init ::
  "'i \<Rightarrow> string \<Rightarrow> 'c list option \<Rightarrow> ('i, 'c, 'w) lazy_func option \<Rightarrow> int
     \<Rightarrow> ('i, 'c, 'w) LazyStation" where
  "LazyStation_init sid nm conns f timeout =
     \<lparr>station_id = sid, station_name = nm, connections_field = conns,
      lazy_func = f, cache_valid_until = 0, cache_timeout = timeout\<rparr>"

text \<open>
  The clock \<^verbatim>\<open>time.time()\<close> and the expiry are Python floats, that is IEEE doubles.
  A finite double is a rational number, comparisons of floats (and of a float with an
  int) are exact, and an arithmetic operation returns the exact result rounded to the
  nearest double, to the one with the even significand when two are equally near.
  \<open>to_double\<close> is that rounding: \<open>binade\<close> finds the exponent \<open>e\<close> of the last place (the
  significand \<open>\<bar>x\<bar> / 2 ^ e\<close> then lies between \<open>2 ^ 52\<close> and \<open>2 ^ 53\<close>, or \<open>e\<close> is the
  smallest exponent, \<open>- 1074\<close>), and the significand is rounded to a whole number. A result
  of magnitude \<open>2 ^ 1024\<close>, where Python has an infinity, is above every finite double
  here as there.
\<close>

definition round_half_even :: "rat \<Rightarrow> int" where
  "round_half_even x =
     (let n = \<lfloor>x\<rfloor>; d = x - rat_of_int n
      in if d < 1 / 2 then n else if 1 / 2 < d then n + 1 else if even n then n else n + 1)"

definition pow2 :: "int \<Rightarrow> rat" where
  "pow2 e = (if 0 \<le> e then 2 ^ nat e else 1 / 2 ^ nat (- e))"

fun binade :: "nat \<Rightarrow> rat \<Rightarrow> int \<Rightarrow> int" where
  "binade 0 a e = e"
| "binade (Suc n) a e =
     (if 9007199254740992 \<le> a then binade n (a / 2) (e + 1)
      else if a < 4503599627370496 \<and> - 1074 < e then binade n (a * 2) (e - 1)
      else e)"

definition to_double :: "rat \<Rightarrow> rat" where
  "to_double x =
     (if x = 0 then 0
      else let e = binade 1200 \<bar>x\<bar> 0
           in sgn x * rat_of_int (round_half_even (\<bar>x\<bar> / pow2 e)) * pow2 e)"

text \<open>
  \<^verbatim>\<open>x + n\<close> for a float \<open>x\<close> and an int \<open>n\<close>: the int is converted to a float, which
  raises \<^verbatim>\<open>OverflowError\<close> when it is too large for one, and the sum is rounded.
\<close>

definition float_add_int :: "rat \<Rightarrow> int \<Rightarrow> py_error + rat" where
  "float_add_int x n =
     (if 2 ^ 1024 \<le> \<bar>to_double (rat_of_int n)\<bar> then Inl (OtherException ''OverflowError'')
      else Inr (to_double (x + to_double (rat_of_int n))))"

text \<open>
  The inner function \<^verbatim>\<open>request_data\<close>: call the callback, store its result in
  \<^verbatim>\<open>_connections\<close>, set the expiry to \<^verbatim>\<open>time.time() + self._cache_timeout\<close>, return
  the result. \<open>now\<close> is the clock as read after the callback has returned, in seconds. An
  exception of the callback leaves the station as it was; an exception of the sum comes
  after the result has been stored and leaves the expiry as it was.
\<close>

definition request_data ::
  "rat \<Rightarrow> ('i, 'c, 'w) lazy_func \<Rightarrow> ('i, 'c, 'w) LazyStation \<Rightarrow> 'w fetch_env
     \<Rightarrow> (py_error + 'c list option) \<times> ('i, 'c, 'w) LazyStation \<times> 'w fetch_env" where
  "request_data now f st env =
     (case f (station_id st) (world env) of
        (r, w') \<Rightarrow>
          (let env' = \<lparr>world = w', calls = calls env + 1\<rparr>
           in case r of
                Inl e \<Rightarrow> (Inl e, st, env')
              | Inr conns \<Rightarrow>
                  (let st1 = st\<lparr>connections_field := conns\<rparr>
                   in case float_add_int now (cache_timeout st) of
                        Inl e \<Rightarrow> (Inl e, st1, env')
                      | Inr expiry \<Rightarrow> (Inr conns, st1\<lparr>cache_valid_until := expiry\<rparr>, env'))))"

text \<open>
  The property \<^verbatim>\<open>connections\<close>. \<open>now_check\<close> is the clock as read by the test
  \<^verbatim>\<open>time.time() > self._cache_valid_until\<close>, \<open>now_set\<close> the clock as read by
  \<^verbatim>\<open>request_data\<close>, if it is called.
\<close>

definition connections ::
  "rat \<Rightarrow> rat \<Rightarrow> ('i, 'c, 'w) LazyStation \<Rightarrow> 'w fetch_env
     \<Rightarrow> (py_error + 'c list option) \<times> ('i, 'c, 'w) LazyStation \<times> 'w fetch_env" where
  "connections now_check now_set st env =
     (case lazy_func st of
        None \<Rightarrow> (Inr (connections_field st), st, env)
      | Some f \<Rightarrow>
          if now_check > cache_valid_until st then request_data now_set f st env
          else if connections_field st = None then request_data now_set f st env
          else (Inr (connections_field st), st, env))"

text \<open>A sequence of reads of the property, each with its two clock readings.\<close>

fun reads ::
  "(rat \<times> rat) list \<Rightarrow> ('i, 'c, 'w) LazyStation \<Rightarrow> 'w fetch_env
     \<Rightarrow> (py_error + 'c list option) list \<times> ('i, 'c, 'w) LazyStation \<times> 'w fetch_env" where
  "reads [] st env = ([], st, env)"
| "reads ((now_check, now_set) # ts) st env =
     (case connections now_check now_set st env of
        (r, st', env') \<Rightarrow>
          (case reads ts st' env' of (rs, st'', env'') \<Rightarrow> (r # rs, st'', env'')))"

section \<open>Projections and example inputs\<close>

definition state_of :: "body_result \<Rightarrow> loop_state" where
  "state_of r = (case r of Continue s \<Rightarrow> s | Raise e s \<Rightarrow> s)"

definition result_state :: "run_result \<Rightarrow> loop_state" where
  "result_state r = (case r of Returned s \<Rightarrow> s | Raised e s \<Rightarrow> s | Looping s \<Rightarrow> s)"

text \<open>
  A connector whose loop is at the start of a pass that calls \<^verbatim>\<open>refresh\<close>, and one
  whose loop is connected and sleeping. In both, \<^verbatim>\<open>_running\<close> is true: no method of the
  class sets it, so it stands for a connector whose flag was assigned from outside before
  the thread was started.
\<close>

definition s_idle :: loop_state where
  "s_idle = \<lparr>conn = (new_PollingDataConnector ''http://train'')
                \<lparr>running := True, started := True, alive := True\<rparr>,
            counter = 0, trace = []\<rparr>"

definition s_up :: loop_state where
  "s_up = \<lparr>conn = (new_PollingDataConnector ''http://train'')
              \<lparr>running := True, connected_flag := True, started := True, alive := True\<rparr>,
           counter = 3, trace = [Refresh, Sleep, Sleep, Sleep]\<rparr>"

text \<open>
  Passes through the loop body: \<^verbatim>\<open>refresh\<close> raises the connectivity error; it raises
  something else; it succeeds after 0.3 seconds; it succeeds and both clock readings are
  the same.
\<close>

definition cy_down :: cycle where
  "cy_down = \<lparr>clock_start = 5000000000,
              refresh = \<lparr>stores = [], raises = Some (APIConnectionError ''unreachable'')\<rparr>,
              clock_end = 5200000000\<rparr>"

definition cy_broken :: cycle where
  "cy_broken = \<lparr>clock_start = 5000000000,
                refresh = \<lparr>stores = [], raises = Some (OtherException ''KeyError'')\<rparr>,
                clock_end = 5200000000\<rparr>"

definition cy_ok :: cycle where
  "cy_ok = \<lparr>clock_start = 7000000000,
            refresh = \<lparr>stores = [(''speed'', PInt 31)], raises = None\<rparr>,
            clock_end = 7300000000\<rparr>"

definition cy_instant :: cycle where
  "cy_instant = \<lparr>clock_start = 7000000000,
                 refresh = \<lparr>stores = [(''speed'', PInt 31)], raises = None\<rparr>,
                 clock_end = 7000000000\<rparr>"

text \<open>
  Two callbacks without side effects, one that returns a list of connections and one that
  returns \<^verbatim>\<open>None\<close>, and a lazy station for each, with the default timeout of 60.
\<close>

definition f_some :: "(nat, string, unit) lazy_func" where
  "f_some sid w = (Inr (Some [''RE 5'']), w)"

definition f_none :: "(nat, string, unit) lazy_func" where
  "f_none sid w = (Inr None, w)"

definition st_some :: "(nat, string, unit) LazyStation" where
  "st_some = LazyStation_init 8000105 ''Frankfurt'' None (Some f_some) 60"

definition st_none :: "(nat, string, unit) LazyStation" where
  "st_none = LazyStation_init 8000105 ''Frankfurt'' None (Some f_none) 60"

definition env0 :: "unit fetch_env" where
  "env0 = \<lparr>world = (), calls = 0\<rparr>"

text \<open>The doubles nearest to 0.7 and to 60.7.\<close>

definition clock_07 :: rat where
  "clock_07 = 3152519739159347 / 4503599627370496"

definition clock_607 :: rat where
  "clock_607 = 4271382771584205 / 70368744177664"

section \<open>ScheduledEvent: the value of \<open>actual\<close>\<close>

lemma default_actual_is_scheduled: "actual (ScheduledEvent_init_default s) = s"
  by (simp add: ScheduledEvent_init_default_def ScheduledEvent_init_def py_or_def)

lemma truthy_actual_is_kept: "truthy a \<Longrightarrow> actual (ScheduledEvent_init s a) = a"
  by (simp add: ScheduledEvent_init_def py_or_def)

lemma falsy_actual_is_replaced: "\<not> truthy a \<Longrightarrow> actual (ScheduledEvent_init s a) = s"
  by (simp add: ScheduledEvent_init_def py_or_def)

lemma actual_not_None: "s \<noteq> PNone \<Longrightarrow> actual (ScheduledEvent_init s a) \<noteq> PNone"
  by (cases a) (auto simp add: ScheduledEvent_init_def py_or_def)

text \<open>
  C7 says that a supplied actual value that is not \<^verbatim>\<open>None\<close> becomes the actual field.
  The constructor tests the truth value of the argument, not whether it is \<^verbatim>\<open>None\<close>:
  the empty string and the number zero are not \<^verbatim>\<open>None\<close>, and for both the actual
  field is the scheduled value instead of the value supplied.
\<close>

theorem empty_actual_is_dropped:
  "PStr '''' \<noteq> PNone \<and>
   actual (ScheduledEvent_init (PStr ''7'') (PStr '''')) = PStr ''7'' \<and>
   PInt 0 \<noteq> PNone \<and>
   actual (ScheduledEvent_init (PInt 5) (PInt 0)) = PInt 5"
  by (simp add: ScheduledEvent_init_def py_or_def)

section \<open>Position: the optional fields\<close>

lemma altitude_absent: "p_altitude p = None \<Longrightarrow> altitude p = Inl TypeError"
  by (simp add: altitude_def py_float_def)

lemma bearing_absent: "p_heading p = None \<Longrightarrow> bearing p = Inl TypeError"
  by (simp add: bearing_def py_float_def)

lemma altitude_present: "p_altitude p = Some a \<Longrightarrow> altitude p = Inr a"
  by (simp add: altitude_def py_float_def)

lemma Position_str_absent:
  assumes "p_altitude p = None \<or> p_heading p = None"
  shows "\<exists>e. Position_str to_dms fmt_coords fmt_alt fmt_bearing p = Inl e"
proof (cases "to_dms (p_latitude p, p_longitude p)")
  case (Inl e)
  then show ?thesis
    by (simp add: Position_str_def and_then_def latitude_def longitude_def py_float_def)
next
  case (Inr d)
  show ?thesis
  proof (cases "p_altitude p")
    case None
    then show ?thesis
      using Inr
      by (simp add: Position_str_def and_then_def latitude_def longitude_def altitude_def
          py_float_def)
  next
    case (Some a)
    with assms have "p_heading p = None" by simp
    then show ?thesis
      using Inr Some
      by (simp add: Position_str_def and_then_def latitude_def longitude_def altitude_def
          bearing_def py_float_def)
  qed
qed

lemma Position_str_present:
  assumes "p_altitude p = Some a" and "p_heading p = Some b"
    and "to_dms (p_latitude p, p_longitude p) = Inr d"
  shows "Position_str to_dms fmt_coords fmt_alt fmt_bearing p
           = Inr (fmt_coords d @ fmt_alt a @ fmt_bearing b)"
  using assms
  by (simp add: Position_str_def and_then_def latitude_def longitude_def altitude_def
      bearing_def py_float_def)

text \<open>
  C8 says that a position built without altitude and heading stores them as absent, that
  the two accessors return the absent value, and that rendering the position never fails.
  The fields are stored as \<^verbatim>\<open>None\<close>, but each accessor passes the field to
  \<^verbatim>\<open>float\<close>: for the position at latitude 52.5 and longitude 13.4 both accessors raise
  \<^verbatim>\<open>TypeError\<close>, and so does the rendering, even with a coordinate helper that
  cannot fail.
\<close>

theorem position_without_altitude_raises:
  "p_altitude (Position_init (105 / 2) (67 / 5) None None) = None \<and>
   p_heading (Position_init (105 / 2) (67 / 5) None None) = None \<and>
   altitude (Position_init (105 / 2) (67 / 5) None None) = Inl TypeError \<and>
   bearing (Position_init (105 / 2) (67 / 5) None None) = Inl TypeError \<and>
   Position_str (\<lambda>c. Inr c) (\<lambda>d. ''52.5 13.4'') (\<lambda>a. '' 0.00m'') (\<lambda>b. '' 0.00'')
     (Position_init (105 / 2) (67 / 5) None None) = Inl TypeError"
  by (simp add: Position_init_def Position_str_def and_then_def latitude_def longitude_def
      altitude_def bearing_def py_float_def)

section \<open>DataConnector: load after store\<close>

lemma load_store_all:
  "load (store_all kvs c) key fb =
     (case map_of (rev kvs) key of None \<Rightarrow> load c key fb | Some v \<Rightarrow> v)"
proof (induction kvs arbitrary: c)
  case Nil
  then show ?case by (simp add: store_all_def)
next
  case (Cons kv kvs)
  obtain k v where kv: "kv = (k, v)" by (cases kv)
  have step: "store_all (kv # kvs) c = store_all kvs (store k v c)"
    by (simp add: store_all_def kv)
  show ?case
    unfolding step Cons.IH
    by (simp add: kv map_add_def load_def store_def split: option.splits)
qed

lemma load_never_stored:
  assumes "data c = Map.empty" and "key \<notin> fst ` set kvs"
  shows "load (store_all kvs c) key fb = fb"
proof -
  have "map_of (rev kvs) key = None"
    using assms(2) by (simp add: map_of_eq_None_iff)
  then have "load (store_all kvs c) key fb = load c key fb"
    by (simp add: load_store_all)
  then show ?thesis
    using assms(1) by (simp add: load_def)
qed

lemma load_last_stored:
  assumes "kvs = pre @ (key, v) # post" and "key \<notin> fst ` set post"
  shows "load (store_all kvs c) key fb = v"
proof -
  have "map_of (rev post) key = None"
    using assms(2) by (simp add: map_of_eq_None_iff)
  then have "map_of (rev kvs) key = Some v"
    by (simp add: assms(1) map_add_def)
  then show ?thesis
    by (simp add: load_store_all)
qed

text \<open>
  C10: for a connector with the \<^verbatim>\<open>load\<close> and \<^verbatim>\<open>store\<close> of \<^verbatim>\<open>DataConnector\<close>, whose
  cache is empty when the stores begin (as it is after construction), after any sequence
  \<open>kvs\<close> of \<^verbatim>\<open>store\<close> calls, \<^verbatim>\<open>load(key, fb)\<close> returns \<open>fb\<close> if no call stored under
  \<open>key\<close>, and otherwise the value of the last call that stored under \<open>key\<close>. \<^verbatim>\<open>load\<close> is a
  total function of the cache: it has no failing case.
\<close>

theorem load_after_stores:
  "data c = Map.empty \<Longrightarrow>
     (key \<notin> fst ` set kvs \<longrightarrow> load (store_all kvs c) key fb = fb) \<and>
     (kvs = pre @ (key, v) # post \<and> key \<notin> fst ` set post
        \<longrightarrow> load (store_all kvs c) key fb = v)"
  using load_never_stored load_last_stored by blast

text \<open>
  The theorem on a fresh connector: a key never stored gives the fallback, and a key
  stored once, before and after a store under another key, gives its value.
\<close>

theorem load_after_stores_witness:
  "data new_DataConnector = Map.empty
   \<and> ''b'' \<notin> fst ` set [(''a'', PInt 1), (''c'', PInt 2), (''a'', PInt 3)]
   \<and> load (store_all [(''a'', PInt 1), (''c'', PInt 2), (''a'', PInt 3)] new_DataConnector)
        ''b'' (PInt 0) = PInt 0
   \<and> ''a'' \<notin> fst ` set [(''c'', PInt 2)]
   \<and> load (store_all ([(''c'', PInt 7)] @ (''a'', PInt 1) # [(''c'', PInt 2)]) new_DataConnector)
        ''a'' (PInt 0) = PInt 1"
proof -
  have e: "data new_DataConnector = Map.empty"
    by (simp add: new_DataConnector_def)
  have n1: "''b'' \<notin> fst ` set [(''a'', PInt 1), (''c'', PInt 2), (''a'', PInt 3)]"
    by simp
  have n2: "''a'' \<notin> fst ` set [(''c'', PInt 2)]"
    by simp
  from load_after_stores [OF e, of "''b''" "[(''a'', PInt 1), (''c'', PInt 2), (''a'', PInt 3)]"
      "PInt 0" "[]" PNone "[]"] n1
  have r1: "load (store_all [(''a'', PInt 1), (''c'', PInt 2), (''a'', PInt 3)] new_DataConnector)
        ''b'' (PInt 0) = PInt 0"
    by blast
  from load_after_stores [OF e, of "''a''" "[(''c'', PInt 7)] @ (''a'', PInt 1) # [(''c'', PInt 2)]"
      "PInt 0" "[(''c'', PInt 7)]" "PInt 1" "[(''c'', PInt 2)]"] n2
  have r2: "load (store_all ([(''c'', PInt 7)] @ (''a'', PInt 1) # [(''c'', PInt 2)]) new_DataConnector)
        ''a'' (PInt 0) = PInt 1"
    by blast
  from e n1 r1 n2 r2 show ?thesis by blast
qed

text \<open>
  The connector for tests, \<^verbatim>\<open>DummyDataConnector\<close>, replaces \<^verbatim>\<open>load\<close> by a constant and
  is not covered by the theorem.
\<close>

lemma DummyDataConnector_load_constant:
  "DummyDataConnector_load c key dflt = PStr ''Dummy value''"
  by (simp add: DummyDataConnector_load_def)

section \<open>PollingDataConnector: what the loop and the thread operations preserve\<close>

text \<open>Storing changes the cache and nothing else.\<close>

lemma store_all_data_only: "store_all kvs c = c\<lparr>data := data (store_all kvs c)\<rparr>"
proof (induction kvs arbitrary: c)
  case Nil
  then show ?case by (simp add: store_all_def)
next
  case (Cons kv kvs)
  obtain k v where kv: "kv = (k, v)" by (cases kv)
  have step: "store_all (kv # kvs) c = store_all kvs (store k v c)"
    by (simp add: store_all_def kv)
  have "store_all kvs (store k v c) = (store k v c)\<lparr>data := data (store_all kvs (store k v c))\<rparr>"
    by (rule Cons.IH)
  then show ?case
    unfolding step by (simp add: store_def)
qed

lemma store_all_flags:
  "running (store_all kvs c) = running c"
  "connected_flag (store_all kvs c) = connected_flag c"
  "target (store_all kvs c) = target c"
  "thread_name (store_all kvs c) = thread_name c"
  "daemon (store_all kvs c) = daemon c"
  "started (store_all kvs c) = started c"
  "alive (store_all kvs c) = alive c"
  by (subst store_all_data_only, simp)+

lemma run_body_flags:
  assumes "run_body cy s = Continue s' \<or> run_body cy s = Raise e s'"
  shows "running (conn s') = running (conn s)"
    and "target (conn s') = target (conn s)"
    and "started (conn s') = started (conn s)"
    and "alive (conn s') = alive (conn s)"
    and "connected_flag (conn s) \<longrightarrow> connected_flag (conn s')"
  using assms
  by (auto simp add: run_body_def Let_def store_all_flags
      split: if_splits option.splits py_error.splits)

lemma run_body_refresh_first:
  "counter s = 0 \<Longrightarrow> \<exists>evs. trace (state_of (run_body cy s)) = trace s @ Refresh # evs"
  by (simp add: run_body_def Let_def state_of_def split: option.splits py_error.splits)

lemma run_body_sleep:
  "counter s \<noteq> 0 \<Longrightarrow>
     run_body cy s = Continue (s\<lparr>counter := (counter s + 1) mod tps, trace := trace s @ [Sleep]\<rparr>)"
  by (simp add: run_body_def)

lemma run_body_connection_error:
  assumes "counter s = 0" and "raises (refresh cy) = Some (APIConnectionError m)"
  shows "run_body cy s =
           Continue (s\<lparr>conn := store_all (stores (refresh cy)) (conn s),
                       trace := trace s @ [Refresh, Log m]\<rparr>)"
  using assms by (simp add: run_body_def Let_def)

lemma run_body_other_error:
  assumes "counter s = 0" and "raises (refresh cy) = Some e" and "\<forall>m. e \<noteq> APIConnectionError m"
  shows "run_body cy s =
           Raise e (s\<lparr>conn := store_all (stores (refresh cy)) (conn s),
                      trace := trace s @ [Refresh]\<rparr>)"
  using assms by (cases e) (simp_all add: run_body_def Let_def)

text \<open>
  The flag \<^verbatim>\<open>_connected\<close> is set by a pass only when its \<^verbatim>\<open>refresh\<close> returned without
  an exception, so a loop that ends with the flag set, having started without it, has seen
  a successful \<^verbatim>\<open>refresh\<close>.
\<close>

lemma run_body_connected_origin:
  assumes "run_body cy s = Continue s' \<or> run_body cy s = Raise e s'"
    and "connected_flag (conn s')" and "\<not> connected_flag (conn s)"
  shows "raises (refresh cy) = None \<and> counter s = 0"
  using assms
  by (auto simp add: run_body_def Let_def store_all_flags
      split: if_splits option.splits py_error.splits)

lemma connected_needs_success:
  assumes "connected_flag (conn (result_state (run_loop cys s)))"
    and "\<not> connected_flag (conn s)"
  shows "\<exists>cy \<in> set cys. raises (refresh cy) = None"
  using assms
proof (induction cys arbitrary: s)
  case Nil
  then show ?case by (simp add: result_state_def split: if_splits)
next
  case (Cons cy cys)
  show ?case
  proof (cases "running (conn s)")
    case False
    with Cons.prems show ?thesis by (simp add: result_state_def)
  next
    case True
    show ?thesis
    proof (cases "run_body cy s")
      case (Continue s')
      show ?thesis
      proof (cases "connected_flag (conn s')")
        case True
        with Continue Cons.prems(2) have "raises (refresh cy) = None"
          using run_body_connected_origin by blast
        then show ?thesis by simp
      next
        case False
        have "connected_flag (conn (result_state (run_loop cys s')))"
          using Cons.prems(1) \<open>running (conn s)\<close> Continue by simp
        from Cons.IH [OF this False] show ?thesis by simp
      qed
    next
      case (Raise e s')
      then have "connected_flag (conn s')"
        using Cons.prems(1) True by (simp add: result_state_def)
      with Raise Cons.prems(2) have "raises (refresh cy) = None"
        using run_body_connected_origin by blast
      then show ?thesis by simp
    qed
  qed
qed

lemma stop_clears_running: "\<not> running (conn (stop inflight s))"
  by (simp add: stop_def join_def thread_exit_def run_body_def Let_def store_all_flags
      split: option.splits py_error.splits)

lemma stop_keeps_connected_flag:
  "connected_flag (conn s) \<Longrightarrow> connected_flag (conn (stop inflight s))"
  by (simp add: stop_def join_def thread_exit_def run_body_def Let_def store_all_flags
      split: option.splits py_error.splits)

lemma stop_not_alive: "\<not> alive (conn (stop inflight s))"
  by (simp add: stop_def join_def thread_exit_def run_body_def Let_def store_all_flags
      split: option.splits py_error.splits)

text \<open>With the flag cleared, the loop makes no further pass.\<close>

lemma no_pass_after_stop: "run_loop cys (stop inflight s) = Returned (stop inflight s)"
  using stop_clears_running [of inflight s] by (cases cys) simp_all

lemma reset_fields:
  "data (conn (reset inflight s)) = Map.empty"
  "\<not> connected_flag (conn (reset inflight s))"
  "\<not> running (conn (reset inflight s))"
  "\<not> started (conn (reset inflight s))"
  "\<not> alive (conn (reset inflight s))"
  "target (conn (reset inflight s)) = None"
  "thread_name (conn (reset inflight s)) = None"
  "daemon (conn (reset inflight s)) = None"
  using stop_clears_running [of inflight s]
  by (simp_all add: reset_def Let_def DataConnector_init_def Thread_init_def)

section \<open>PollingDataConnector: the property \<open>connected\<close>\<close>

text \<open>
  C9: in every state of a connector, reachable or not, the property \<^verbatim>\<open>connected\<close> is
  true only if \<^verbatim>\<open>_running\<close> is true. After \<^verbatim>\<open>stop\<close> the property reads false, whatever
  the loop was doing when the flag was cleared, while the flag \<^verbatim>\<open>_connected\<close>, if it was
  set, is still set; \<^verbatim>\<open>reset\<close> clears it.
\<close>

theorem connected_only_while_running:
  "(connected c \<longrightarrow> running c) \<and>
   \<not> connected (conn (stop inflight s)) \<and>
   (connected_flag (conn s) \<longrightarrow> connected_flag (conn (stop inflight s))) \<and>
   \<not> connected_flag (conn (reset inflight s))"
  using stop_clears_running [of inflight s] stop_keeps_connected_flag [of s inflight]
    reset_fields(2) [of inflight s]
  by (simp add: connected_def)

text \<open>The theorem on a connector that is running and connected.\<close>

theorem connected_only_while_running_witness:
  "connected (conn s_up) \<and> running (conn s_up) \<and>
   connected_flag (conn s_up) \<and>
   connected_flag (conn (stop None s_up)) \<and>
   \<not> connected (conn (stop None s_up)) \<and>
   \<not> connected_flag (conn (reset None s_up))"
  using connected_only_while_running [of "conn s_up" None s_up]
  by (simp add: s_up_def connected_def)

section \<open>PollingDataConnector: exceptions of \<open>refresh\<close>\<close>

text \<open>
  C5: in a pass of the running loop that calls \<^verbatim>\<open>refresh\<close> (the counter is zero), if
  \<^verbatim>\<open>refresh\<close> raises the connectivity error then the pass ends normally, the call and the
  logged message are all the loop did, the flags \<^verbatim>\<open>_connected\<close> and \<^verbatim>\<open>_running\<close> and the
  liveness of the thread are as before, the loop goes on with its next pass, and that pass
  calls \<^verbatim>\<open>refresh\<close> first, without sleeping. If \<^verbatim>\<open>refresh\<close> raises anything else, the
  exception leaves the pass and the loop.
\<close>

theorem connectivity_error_is_caught:
  assumes "running (conn s)" and "counter s = 0"
  shows "(raises (refresh cy) = Some (APIConnectionError m) \<longrightarrow>
            (\<exists>s'. run_body cy s = Continue s'
               \<and> trace s' = trace s @ [Refresh, Log m]
               \<and> connected_flag (conn s') = connected_flag (conn s)
               \<and> running (conn s') = running (conn s)
               \<and> alive (conn s') = alive (conn s)
               \<and> counter s' = 0
               \<and> run_loop (cy # cys) s = run_loop cys s'
               \<and> (\<exists>evs. trace (state_of (run_body cy2 s')) = trace s' @ Refresh # evs)))
       \<and> (raises (refresh cy) = Some e \<and> (\<forall>m. e \<noteq> APIConnectionError m) \<longrightarrow>
            (\<exists>s'. run_body cy s = Raise e s' \<and> run_loop (cy # cys) s = Raised e s'))"
proof (intro conjI impI)
  assume err: "raises (refresh cy) = Some (APIConnectionError m)"
  define s' where "s' = s\<lparr>conn := store_all (stores (refresh cy)) (conn s),
                         trace := trace s @ [Refresh, Log m]\<rparr>"
  have body: "run_body cy s = Continue s'"
    unfolding s'_def using assms(2) err by (rule run_body_connection_error)
  have c0: "counter s' = 0"
    by (simp add: s'_def assms(2))
  have nxt: "\<exists>evs. trace (state_of (run_body cy2 s')) = trace s' @ Refresh # evs"
    using c0 by (rule run_body_refresh_first)
  have loop: "run_loop (cy # cys) s = run_loop cys s'"
    using assms(1) body by simp
  have flags: "connected_flag (conn s') = connected_flag (conn s)"
    "running (conn s') = running (conn s)" "alive (conn s') = alive (conn s)"
    by (simp_all add: s'_def store_all_flags)
  have tr: "trace s' = trace s @ [Refresh, Log m]"
    by (simp add: s'_def)
  from body tr flags c0 loop nxt
  show "\<exists>s'. run_body cy s = Continue s'
               \<and> trace s' = trace s @ [Refresh, Log m]
               \<and> connected_flag (conn s') = connected_flag (conn s)
               \<and> running (conn s') = running (conn s)
               \<and> alive (conn s') = alive (conn s)
               \<and> counter s' = 0
               \<and> run_loop (cy # cys) s = run_loop cys s'
               \<and> (\<exists>evs. trace (state_of (run_body cy2 s')) = trace s' @ Refresh # evs)"
    by blast
next
  assume other: "raises (refresh cy) = Some e \<and> (\<forall>m. e \<noteq> APIConnectionError m)"
  define s' where "s' = s\<lparr>conn := store_all (stores (refresh cy)) (conn s),
                         trace := trace s @ [Refresh]\<rparr>"
  have body: "run_body cy s = Raise e s'"
    unfolding s'_def using assms(2) other by (simp add: run_body_other_error)
  then have "run_loop (cy # cys) s = Raised e s'"
    using assms(1) by simp
  with body show "\<exists>s'. run_body cy s = Raise e s' \<and> run_loop (cy # cys) s = Raised e s'"
    by blast
qed

text \<open>
  The theorem on a running loop, once for a pass in which \<^verbatim>\<open>refresh\<close> raises the
  connectivity error and once for a pass in which it raises another exception.
\<close>

theorem connectivity_error_is_caught_witness:
  "running (conn s_idle) \<and> counter s_idle = 0
   \<and> raises (refresh cy_down) = Some (APIConnectionError ''unreachable'')
   \<and> (\<exists>s'. run_body cy_down s_idle = Continue s'
          \<and> trace s' = trace s_idle @ [Refresh, Log ''unreachable'']
          \<and> connected_flag (conn s') = connected_flag (conn s_idle)
          \<and> running (conn s') = running (conn s_idle)
          \<and> alive (conn s') = alive (conn s_idle)
          \<and> counter s' = 0
          \<and> run_loop (cy_down # [cy_ok]) s_idle = run_loop [cy_ok] s'
          \<and> (\<exists>evs. trace (state_of (run_body cy_ok s')) = trace s' @ Refresh # evs))
   \<and> raises (refresh cy_broken) = Some (OtherException ''KeyError'')
   \<and> (\<exists>s'. run_body cy_broken s_idle = Raise (OtherException ''KeyError'') s'
          \<and> run_loop (cy_broken # [cy_ok]) s_idle = Raised (OtherException ''KeyError'') s')"
proof -
  have h1: "running (conn s_idle)" and h2: "counter s_idle = 0"
    by (simp_all add: s_idle_def)
  have d: "raises (refresh cy_down) = Some (APIConnectionError ''unreachable'')"
    by (simp add: cy_down_def)
  have b: "raises (refresh cy_broken) = Some (OtherException ''KeyError'')"
    by (simp add: cy_broken_def)
  have nb: "\<forall>m. OtherException ''KeyError'' \<noteq> APIConnectionError m"
    by simp
  note caught = connectivity_error_is_caught [OF h1 h2,
      where cy = cy_down and m = "''unreachable''" and cys = "[cy_ok]" and ?cy2.0 = cy_ok
        and e = "OtherException ''KeyError''"]
  note passed = connectivity_error_is_caught [OF h1 h2,
      where cy = cy_broken and m = "''unreachable''" and cys = "[cy_ok]" and ?cy2.0 = cy_ok
        and e = "OtherException ''KeyError''"]
  from caught d have c1: "\<exists>s'. run_body cy_down s_idle = Continue s'
          \<and> trace s' = trace s_idle @ [Refresh, Log ''unreachable'']
          \<and> connected_flag (conn s') = connected_flag (conn s_idle)
          \<and> running (conn s') = running (conn s_idle)
          \<and> alive (conn s') = alive (conn s_idle)
          \<and> counter s' = 0
          \<and> run_loop (cy_down # [cy_ok]) s_idle = run_loop [cy_ok] s'
          \<and> (\<exists>evs. trace (state_of (run_body cy_ok s')) = trace s' @ Refresh # evs)"
    by (rule conjunct1 [THEN mp])
  from passed b nb have c2: "\<exists>s'. run_body cy_broken s_idle = Raise (OtherException ''KeyError'') s'
          \<and> run_loop (cy_broken # [cy_ok]) s_idle = Raised (OtherException ''KeyError'') s'"
    by (simp only: simp_thms)
  from h1 h2 d c1 b c2 show ?thesis
    by (intro conjI)
qed

section \<open>PollingDataConnector: the counter after a successful \<open>refresh\<close>\<close>

text \<open>
  When \<^verbatim>\<open>refresh\<close> returns at or after the target time, the counter is zero.
\<close>

lemma next_counter_late: "tgt \<le> now \<Longrightarrow> next_counter tgt now = 0"
proof -
  assume "tgt \<le> now"
  then have "rat_of_int (tgt - now) / 1000000000 \<le> 0"
    by (simp add: divide_le_0_iff)
  then have "max 0 (rat_of_int (tgt - now) / 1000000000) = 0"
    by (simp add: max_def)
  then show ?thesis
    by (simp add: next_counter_def py_int_def tps_def)
qed

lemma late_refresh_no_sleep:
  assumes "counter s = 0" and "raises (refresh cy) = None"
    and "clock_start cy + 1000000000 \<le> clock_end cy"
  shows "\<exists>s'. run_body cy s = Continue s' \<and> counter s' = 0"
  using assms by (simp add: run_body_def Let_def next_counter_late)

text \<open>
  With \<open>r\<close> nanoseconds left until the target, the number of twentieths of a second that
  fit into \<open>r\<close> is taken from \<open>tps\<close>, modulo \<open>tps\<close>.
\<close>

lemma increments_of_remaining:
  assumes "0 \<le> r"
  shows "py_int (max 0 (rat_of_int r / 1000000000) * rat_of_int tps) = r div 50000000"
proof -
  have eq: "max 0 (rat_of_int r / 1000000000) * rat_of_int tps
              = rat_of_int r / rat_of_int 50000000"
    using assms by (simp add: tps_def max_def)
  have fl: "\<lfloor>rat_of_int r / rat_of_int 50000000\<rfloor> = r div 50000000"
    by (rule floor_divide_of_int_eq)
  have nonneg: "0 \<le> rat_of_int r / rat_of_int 50000000"
    using assms by simp
  show ?thesis
    unfolding eq py_int_def using fl nonneg by (simp only: if_True)
qed

lemma next_counter_early:
  assumes "0 \<le> r"
  shows "next_counter (now + r) now = (20 - r div 50000000) mod 20"
proof -
  have "next_counter (now + r) now
          = (tps - py_int (max 0 (rat_of_int r / 1000000000) * rat_of_int tps)) mod tps"
    by (simp add: next_counter_def)
  also have "\<dots> = (tps - r div 50000000) mod tps"
    by (simp only: increments_of_remaining [OF assms])
  also have "\<dots> = (20 - r div 50000000) mod 20"
    by (simp only: tps_def)
  finally show ?thesis .
qed

lemma next_counter_within_period:
  assumes "50000000 \<le> r" and "r < 1000000000"
  shows "next_counter (now + r) now = 20 - r div 50000000"
    and "0 < next_counter (now + r) now" and "next_counter (now + r) now < 20"
proof -
  define k where "k = r div 50000000"
  have k: "1 \<le> k" "k \<le> 19"
    unfolding k_def using assms by linarith+
  have "0 \<le> r" using assms by simp
  then have nc: "next_counter (now + r) now = (20 - k) mod 20"
    unfolding k_def by (rule next_counter_early)
  have "0 \<le> 20 - k" and "20 - k < 20"
    using k by simp_all
  then have "(20 - k) mod 20 = 20 - k"
    by (rule mod_pos_pos_trivial)
  with nc have eq: "next_counter (now + r) now = 20 - k"
    by simp
  then show "next_counter (now + r) now = 20 - r div 50000000"
    by (simp add: k_def)
  from eq k show "0 < next_counter (now + r) now" and "next_counter (now + r) now < 20"
    by simp_all
qed

text \<open>
  From a counter \<open>c\<close> between 1 and 19 the loop makes \<open>20 - c\<close> passes that sleep, and
  then the counter is zero again.
\<close>

lemma sleep_passes:
  assumes "running (conn s)" and "0 < counter s" and "counter s < 20"
    and "n = nat (20 - counter s)"
  shows "run_loop (replicate n cy @ cys) s
           = run_loop cys (s\<lparr>counter := 0, trace := trace s @ replicate n Sleep\<rparr>)"
  using assms
proof (induction n arbitrary: s)
  case 0
  then show ?case by simp
next
  case (Suc n)
  define s' where "s' = s\<lparr>counter := (counter s + 1) mod tps, trace := trace s @ [Sleep]\<rparr>"
  have body: "run_body cy s = Continue s'"
    unfolding s'_def using Suc.prems(2) by (simp add: run_body_sleep)
  have step: "run_loop (replicate (Suc n) cy @ cys) s = run_loop (replicate n cy @ cys) s'"
    using Suc.prems(1) body by simp
  show ?case
  proof (cases "counter s = 19")
    case True
    then have n0: "n = 0" using Suc.prems(4) by simp
    have "s' = s\<lparr>counter := 0, trace := trace s @ replicate (Suc n) Sleep\<rparr>"
      by (simp add: s'_def True tps_def n0)
    then show ?thesis
      unfolding step by (simp add: n0)
  next
    case False
    then have c': "counter s' = counter s + 1"
      using Suc.prems(2,3) by (simp add: s'_def tps_def)
    have "run_loop (replicate n cy @ cys) s'
            = run_loop cys (s'\<lparr>counter := 0, trace := trace s' @ replicate n Sleep\<rparr>)"
    proof (rule Suc.IH)
      show "running (conn s')" using Suc.prems(1) by (simp add: s'_def)
      show "0 < counter s'" using c' Suc.prems(2) by simp
      show "counter s' < 20" using c' Suc.prems(3) False by simp
      show "n = nat (20 - counter s')" using c' Suc.prems(4) by simp
    qed
    moreover have "s'\<lparr>counter := 0, trace := trace s' @ replicate n Sleep\<rparr>
                     = s\<lparr>counter := 0, trace := trace s @ replicate (Suc n) Sleep\<rparr>"
      by (simp add: s'_def replicate_app_Cons_same)
    ultimately show ?thesis
      unfolding step by simp
  qed
qed

text \<open>
  So a \<^verbatim>\<open>refresh\<close> that returns with \<open>r\<close> nanoseconds left, \<open>r\<close> at least one increment and
  less than the period, is followed by \<open>r div 50000000\<close> sleeps of a twentieth of a second
  and then by the next pass that calls \<^verbatim>\<open>refresh\<close>.
\<close>

lemma early_refresh_sleeps:
  assumes run: "running (conn s)" and c0: "counter s = 0"
    and ok: "raises (refresh cy) = None"
    and rem: "clock_start cy + 1000000000 = clock_end cy + r"
    and lo: "50000000 \<le> r" and hi: "r < 1000000000"
    and n: "n = nat (r div 50000000)"
  shows "\<exists>s'. run_loop (cy # replicate n cy' @ cys) s = run_loop cys s'
           \<and> counter s' = 0 \<and> trace s' = trace s @ Refresh # replicate n Sleep"
proof -
  define s1 where "s1 = s\<lparr>conn := (store_all (stores (refresh cy)) (conn s))\<lparr>connected_flag := True\<rparr>,
                         counter := next_counter (clock_end cy + r) (clock_end cy),
                         trace := trace s @ [Refresh]\<rparr>"
  have body: "run_body cy s = Continue s1"
    using c0 ok rem by (simp add: run_body_def Let_def s1_def)
  have cnt: "counter s1 = 20 - r div 50000000"
    using next_counter_within_period(1) [OF lo hi] by (simp add: s1_def)
  have k: "1 \<le> r div 50000000" "r div 50000000 \<le> 19"
    using lo hi by linarith+
  have first: "run_loop (cy # replicate n cy' @ cys) s = run_loop (replicate n cy' @ cys) s1"
    using run body by simp
  have "run_loop (replicate n cy' @ cys) s1
          = run_loop cys (s1\<lparr>counter := 0, trace := trace s1 @ replicate n Sleep\<rparr>)"
  proof (rule sleep_passes)
    show "running (conn s1)" using run by (simp add: s1_def store_all_flags)
    show "0 < counter s1" using cnt k by simp
    show "counter s1 < 20" using cnt k by simp
    show "n = nat (20 - counter s1)" using cnt n by simp
  qed
  with first have "run_loop (cy # replicate n cy' @ cys) s
          = run_loop cys (s1\<lparr>counter := 0, trace := trace s1 @ replicate n Sleep\<rparr>)"
    by simp
  moreover have "trace (s1\<lparr>counter := 0, trace := trace s1 @ replicate n Sleep\<rparr>)
                   = trace s @ Refresh # replicate n Sleep"
    by (simp add: s1_def)
  ultimately show ?thesis by auto
qed

text \<open>
  C6 says that a \<^verbatim>\<open>refresh\<close> that finishes early is followed by sleeping for about the
  time left until the target. When the two clock readings of a pass are the same, the
  whole period of one second is left, twenty increments fit into it, and the counter is
  \<open>(20 - 20) mod 20 = 0\<close>: the next pass calls \<^verbatim>\<open>refresh\<close> at once. Three such passes call
  \<^verbatim>\<open>refresh\<close> three times and never sleep.
\<close>

theorem instant_refresh_is_not_followed_by_sleep:
  "clock_start cy_instant + 1000000000 - clock_end cy_instant = 1000000000 \<and>
   next_counter (clock_start cy_instant + 1000000000) (clock_end cy_instant) = 0 \<and>
   (\<exists>s. run_loop [cy_instant, cy_instant, cy_instant] s_idle = Looping s
        \<and> trace s = [Refresh, Refresh, Refresh])"
proof -
  have nc: "next_counter (7000000000 + 1000000000) 7000000000 = 0"
    using next_counter_early [of 1000000000 7000000000] by simp
  then have nc': "next_counter 8000000000 7000000000 = 0"
    by simp
  show ?thesis
    by (simp add: cy_instant_def s_idle_def run_body_def Let_def nc nc' store_all_flags
        new_PollingDataConnector_def PollingDataConnector_init_def Thread_init_def
        DataConnector_init_def)
qed

section \<open>PollingDataConnector: start and reset\<close>

text \<open>
  Had \<^verbatim>\<open>_running\<close> been set when the thread starts, a first pass in which \<^verbatim>\<open>refresh\<close>
  succeeds would make the connector connected.
\<close>

lemma forced_start_refreshes:
  assumes "raises (refresh cy) = None"
  shows "\<exists>s. start [cy] ((new_PollingDataConnector api_url)\<lparr>running := True\<rparr>) = Inr (Looping s)
       \<and> trace s = [Refresh] \<and> connected (conn s)"
  using assms
  by (simp add: start_def Thread_run_def run_def new_PollingDataConnector_def
      PollingDataConnector_init_def Thread_init_def DataConnector_init_def thread_exit_def
      connected_def run_body_def Let_def store_all_flags)

text \<open>
  C1 says that after \<^verbatim>\<open>start()\<close> the loop calls \<^verbatim>\<open>refresh\<close> and the connector becomes
  connected once \<^verbatim>\<open>refresh\<close> has succeeded. The constructor sets \<^verbatim>\<open>_running\<close> to false
  and nothing sets it to true: on a freshly constructed connector, whatever \<^verbatim>\<open>refresh\<close>
  would do in the passes \<open>cys\<close>, the thread that \<^verbatim>\<open>start()\<close> runs finds the test of the
  loop false and returns; \<^verbatim>\<open>refresh\<close> is never called, the connector is not connected,
  and the thread has ended.
\<close>

theorem fresh_start_never_refreshes:
  "\<exists>s. start cys (new_PollingDataConnector api_url) = Inr (Returned s)
       \<and> trace s = [] \<and> \<not> connected (conn s) \<and> \<not> alive (conn s)"
  by (cases cys)
    (simp_all add: start_def Thread_run_def run_def new_PollingDataConnector_def
      PollingDataConnector_init_def Thread_init_def DataConnector_init_def thread_exit_def
      connected_def)

text \<open>
  C3 says that \<^verbatim>\<open>reset()\<close> gives a connector like a freshly constructed one, on which
  \<^verbatim>\<open>start()\<close> runs the loop again. \<^verbatim>\<open>reset\<close> initialises the thread without a target:
  the connector differs from every fresh one, and the thread that \<^verbatim>\<open>start()\<close> runs on
  it returns without entering the loop, whatever the value \<open>r\<close> of \<^verbatim>\<open>_running\<close> is at
  that moment.
\<close>

theorem reset_connector_cannot_be_restarted:
  "conn (reset inflight s) \<noteq> new_PollingDataConnector api_url \<and>
   target (conn (reset inflight s)) = None \<and>
   target (new_PollingDataConnector api_url) = Some Run \<and>
   (\<exists>s'. start cys ((conn (reset inflight s))\<lparr>running := r\<rparr>) = Inr (Returned s')
          \<and> trace s' = [] \<and> \<not> connected (conn s'))"
proof -
  have t0: "target (conn (reset inflight s)) = None"
    by (rule reset_fields)
  have t1: "target (new_PollingDataConnector api_url) = Some Run"
    by (simp add: new_PollingDataConnector_def PollingDataConnector_init_def Thread_init_def)
  from t0 t1 have ne: "conn (reset inflight s) \<noteq> new_PollingDataConnector api_url"
    by auto
  have ns: "\<not> started (conn (reset inflight s))" and nc: "\<not> connected_flag (conn (reset inflight s))"
    by (rule reset_fields)+
  have "\<exists>s'. start cys ((conn (reset inflight s))\<lparr>running := r\<rparr>) = Inr (Returned s')
          \<and> trace s' = [] \<and> \<not> connected (conn s')"
    using t0 ns nc
    by (simp add: start_def Thread_run_def thread_exit_def connected_def)
  with ne t0 t1 show ?thesis by blast
qed

section \<open>The lazily loaded connections: fetches per window\<close>

lemma request_data_calls:
  "request_data now f st env = (r, st', env') \<Longrightarrow> calls env' = calls env + 1"
  by (auto simp add: request_data_def Let_def split: prod.splits sum.splits)

lemma request_data_value:
  assumes "f (station_id st) (world env) = (Inr conns, w')"
    and "float_add_int now (cache_timeout st) = Inr expiry"
  shows "request_data now f st env =
           (Inr conns,
            st\<lparr>connections_field := conns, cache_valid_until := expiry\<rparr>,
            \<lparr>world = w', calls = calls env + 1\<rparr>)"
  using assms by (simp add: request_data_def)

lemma request_data_keeps:
  assumes "request_data now f st env = (r, st', env')"
  shows "lazy_func st' = lazy_func st" and "station_id st' = station_id st"
    and "cache_timeout st' = cache_timeout st"
  using assms
  by (auto simp add: request_data_def Let_def split: prod.splits sum.splits)

lemma request_data_absent:
  assumes "request_data now f st env = (r, st', env')"
    and "connections_field st = None"
    and "f (station_id st) (world env) = (Inr None, w')"
  shows "connections_field st' = None"
  using assms
  by (auto simp add: request_data_def Let_def split: prod.splits sum.splits)

lemma connections_fetches:
  assumes "lazy_func st = Some f"
    and "cache_valid_until st < now_check \<or> connections_field st = None"
  shows "connections now_check now_set st env = request_data now_set f st env"
  using assms by (auto simp add: connections_def)

lemma connections_cached:
  assumes "lazy_func st = Some f" and "now_check \<le> cache_valid_until st"
    and "connections_field st = Some v"
  shows "connections now_check now_set st env = (Inr (Some v), st, env)"
  using assms by (simp add: connections_def)

lemma connections_static:
  assumes "lazy_func st = None"
  shows "connections now_check now_set st env = (Inr (connections_field st), st, env)"
  using assms by (simp add: connections_def)

text \<open>
  A fetch that returns connections opens a window that ends at the stored expiry: reads
  up to the expiry are served from the cache, the first read past it fetches once more.
\<close>

lemma window_of_a_fetch:
  assumes f: "lazy_func st = Some f"
    and stale: "cache_valid_until st < t0 \<or> connections_field st = None"
    and answer: "f (station_id st) (world env) = (Inr (Some v), w1)"
    and expiry: "float_add_int t0' (cache_timeout st) = Inr u"
    and read1: "connections t0 t0' st env = (r1, st1, env1)"
    and in2: "t1 \<le> u"
    and read2: "connections t1 t1' st1 env1 = (r2, st2, env2)"
    and in3: "t2 \<le> u"
    and read3: "connections t2 t2' st2 env2 = (r3, st3, env3)"
    and out4: "u < t3"
    and read4: "connections t3 t3' st3 env3 = (r4, st4, env4)"
  shows "r1 = Inr (Some v) \<and> r2 = Inr (Some v) \<and> r3 = Inr (Some v)
         \<and> cache_valid_until st1 = u
         \<and> calls env1 = calls env + 1 \<and> calls env2 = calls env + 1
         \<and> calls env3 = calls env + 1 \<and> calls env4 = calls env + 2"
proof -
  have "connections t0 t0' st env = request_data t0' f st env"
    using f stale by (rule connections_fetches)
  with read1 answer expiry have 1: "r1 = Inr (Some v)"
    "st1 = st\<lparr>connections_field := Some v, cache_valid_until := u\<rparr>"
    "env1 = \<lparr>world = w1, calls = calls env + 1\<rparr>"
    by (simp_all add: request_data_value)
  have f1: "lazy_func st1 = Some f" and v1: "connections_field st1 = Some v"
    and u1: "cache_valid_until st1 = u"
    by (simp_all add: 1 f)
  have "connections t1 t1' st1 env1 = (Inr (Some v), st1, env1)"
    using f1 _ v1 by (rule connections_cached) (simp add: u1 in2)
  with read2 have 2: "r2 = Inr (Some v)" "st2 = st1" "env2 = env1"
    by simp_all
  have "connections t2 t2' st1 env1 = (Inr (Some v), st1, env1)"
    using f1 _ v1 by (rule connections_cached) (simp add: u1 in3)
  with read3 have 3: "r3 = Inr (Some v)" "st3 = st1" "env3 = env1"
    by (simp_all add: 2)
  have "connections t3 t3' st1 env1 = request_data t3' f st1 env1"
    using f1 by (rule connections_fetches) (simp add: u1 out4)
  with read4 have "request_data t3' f st1 env1 = (r4, st4, env4)"
    by (simp add: 3)
  then have "calls env4 = calls env1 + 1"
    by (rule request_data_calls)
  with 1 2 3 u1 show ?thesis by simp
qed

text \<open>
  A callback that returns \<^verbatim>\<open>None\<close> leaves the station without a stored value, and a
  station without a stored value calls the callback on every read, whatever the clock.
\<close>

lemma absent_reads:
  assumes "lazy_func st = Some f" and "connections_field st = None"
    and "\<forall>w. \<exists>w'. f (station_id st) w = (Inr None, w')"
  shows "calls (snd (snd (reads ts st env))) = calls env + length ts
         \<and> connections_field (fst (snd (reads ts st env))) = None"
  using assms
proof (induction ts arbitrary: st env)
  case Nil
  then show ?case by simp
next
  case (Cons t ts)
  obtain t0 t0' where t: "t = (t0, t0')" by (cases t)
  obtain r st' env' where rd: "connections t0 t0' st env = (r, st', env')"
    by (cases "connections t0 t0' st env")
  obtain w' where ans: "f (station_id st) (world env) = (Inr None, w')"
    using Cons.prems(3) by blast
  have "connections t0 t0' st env = request_data t0' f st env"
    using Cons.prems(1,2) by (simp add: connections_fetches)
  with rd have rq: "request_data t0' f st env = (r, st', env')"
    by simp
  have c: "calls env' = calls env + 1"
    using rq by (rule request_data_calls)
  have keep: "lazy_func st' = Some f" "station_id st' = station_id st"
    using request_data_keeps(1,2) [OF rq] Cons.prems(1) by simp_all
  have none: "connections_field st' = None"
    using rq Cons.prems(2) ans by (rule request_data_absent)
  have always: "\<forall>w. \<exists>w'. f (station_id st') w = (Inr None, w')"
    using Cons.prems(3) keep(2) by simp
  have ih: "calls (snd (snd (reads ts st' env'))) = calls env' + length ts
         \<and> connections_field (fst (snd (reads ts st' env'))) = None"
    using keep(1) none always by (rule Cons.IH)
  show ?case
    using ih c by (auto simp add: t rd split: prod.splits)
qed

text \<open>
  C4, with the window measured by the expiry that the code stores. Let a station have the
  callback \<open>f\<close> and the timeout \<open>T\<close>. First part: let a read find the cache stale or empty,
  so that it calls \<open>f\<close>, let \<open>f\<close> return \<open>Some v\<close> and not \<^verbatim>\<open>None\<close>, and let \<open>u\<close> be the
  expiry, the float sum of the clock \<open>t0'\<close> at that moment and \<open>T\<close>. Two further reads
  whose clock is not past \<open>u\<close> return the same \<open>Some v\<close> as the first and do not call \<open>f\<close>:
  one call in total for the three reads. A read whose clock is past \<open>u\<close> calls \<open>f\<close> exactly
  once more, whatever \<open>f\<close> then returns or raises. Second part: when \<open>f\<close> returns
  \<^verbatim>\<open>None\<close> whenever it is called, a station with no stored value calls it on every read:
  after any reads \<open>ts\<close>, whatever their clocks, there are as many calls as reads.
\<close>

theorem one_fetch_per_window:
  assumes f: "lazy_func st = Some f"
  shows "((cache_valid_until st < t0 \<or> connections_field st = None)
          \<and> f (station_id st) (world env) = (Inr (Some v), w1)
          \<and> float_add_int t0' (cache_timeout st) = Inr u
          \<and> connections t0 t0' st env = (r1, st1, env1)
          \<and> t1 \<le> u \<and> connections t1 t1' st1 env1 = (r2, st2, env2)
          \<and> t2 \<le> u \<and> connections t2 t2' st2 env2 = (r3, st3, env3)
          \<and> u < t3 \<and> connections t3 t3' st3 env3 = (r4, st4, env4)
          \<longrightarrow> r1 = Inr (Some v) \<and> r2 = Inr (Some v) \<and> r3 = Inr (Some v)
              \<and> cache_valid_until st1 = u
              \<and> calls env1 = calls env + 1 \<and> calls env2 = calls env + 1
              \<and> calls env3 = calls env + 1 \<and> calls env4 = calls env + 2)
       \<and> (connections_field st = None \<and> (\<forall>w. \<exists>w'. f (station_id st) w = (Inr None, w'))
          \<longrightarrow> calls (snd (snd (reads ts st env))) = calls env + length ts)"
proof (rule conjI; rule impI)
  assume a: "(cache_valid_until st < t0 \<or> connections_field st = None)
          \<and> f (station_id st) (world env) = (Inr (Some v), w1)
          \<and> float_add_int t0' (cache_timeout st) = Inr u
          \<and> connections t0 t0' st env = (r1, st1, env1)
          \<and> t1 \<le> u \<and> connections t1 t1' st1 env1 = (r2, st2, env2)
          \<and> t2 \<le> u \<and> connections t2 t2' st2 env2 = (r3, st3, env3)
          \<and> u < t3 \<and> connections t3 t3' st3 env3 = (r4, st4, env4)"
  then have stale: "cache_valid_until st < t0 \<or> connections_field st = None"
    and answer: "f (station_id st) (world env) = (Inr (Some v), w1)"
    and expiry: "float_add_int t0' (cache_timeout st) = Inr u"
    and read1: "connections t0 t0' st env = (r1, st1, env1)"
    and in2: "t1 \<le> u"
    and read2: "connections t1 t1' st1 env1 = (r2, st2, env2)"
    and in3: "t2 \<le> u"
    and read3: "connections t2 t2' st2 env2 = (r3, st3, env3)"
    and out4: "u < t3"
    and read4: "connections t3 t3' st3 env3 = (r4, st4, env4)"
    by simp_all
  show "r1 = Inr (Some v) \<and> r2 = Inr (Some v) \<and> r3 = Inr (Some v)
              \<and> cache_valid_until st1 = u
              \<and> calls env1 = calls env + 1 \<and> calls env2 = calls env + 1
              \<and> calls env3 = calls env + 1 \<and> calls env4 = calls env + 2"
    using f stale answer expiry read1 in2 read2 in3 read3 out4 read4
    by (rule window_of_a_fetch)
next
  assume b: "connections_field st = None \<and> (\<forall>w. \<exists>w'. f (station_id st) w = (Inr None, w'))"
  then have none: "connections_field st = None"
    and always: "\<forall>w. \<exists>w'. f (station_id st) w = (Inr None, w')"
    by simp_all
  from absent_reads [OF f none always]
  show "calls (snd (snd (reads ts st env))) = calls env + length ts"
    by simp
qed

text \<open>
  Float sums of the examples: on whole seconds the sum is exact; the double nearest to 0.7
  plus 60 is the double nearest to 60.7, which is more than 60 above it.
\<close>

lemma binade_numeral:
  "binade (numeral k) a e =
     (if 9007199254740992 \<le> a then binade (pred_numeral k) (a / 2) (e + 1)
      else if a < 4503599627370496 \<and> - 1074 < e then binade (pred_numeral k) (a * 2) (e - 1)
      else e)"
  by (simp add: numeral_eq_Suc)

lemma floor_rat_numeral:
  "\<lfloor>numeral a / numeral b :: rat\<rfloor> = numeral a div numeral b"
  using floor_divide_of_int_eq [of "numeral a" "numeral b", where ?'a = rat] by simp

lemma double_sums:
  "float_add_int 101 60 = Inr 161"
  "float_add_int 103 60 = Inr 163"
  "float_add_int 163 60 = Inr 223"
  "float_add_int clock_07 60 = Inr clock_607"
  by (simp_all add: float_add_int_def to_double_def round_half_even_def pow2_def Let_def
      clock_07_def clock_607_def binade_numeral floor_rat_numeral)

lemma nearest_doubles:
  "to_double (7 / 10) = clock_07" "to_double (607 / 10) = clock_607"
  by (simp_all add: to_double_def round_half_even_def pow2_def Let_def
      clock_07_def clock_607_def binade_numeral floor_rat_numeral)

lemma clock_07_facts: "0 < clock_07" "60 < clock_607 - clock_07"
  by (simp_all add: clock_07_def clock_607_def)

text \<open>
  The theorem on two fresh stations with a timeout of 60. First part: a first read at 100
  whose result is stored at 101, reads at 130 and at 161, and a read at 162. Second part:
  two reads of the station whose callback returns \<^verbatim>\<open>None\<close>.
\<close>

theorem one_fetch_per_window_witness:
  "lazy_func st_some = Some f_some
   \<and> (cache_valid_until st_some < 100 \<or> connections_field st_some = None)
   \<and> f_some (station_id st_some) (world env0) = (Inr (Some [''RE 5'']), ())
   \<and> float_add_int 101 (cache_timeout st_some) = Inr 161
   \<and> (130::rat) \<le> 161 \<and> (161::rat) \<le> 161 \<and> (161::rat) < 162
   \<and> (\<exists>st1 env1 st4 env4 r4.
         connections 100 101 st_some env0 = (Inr (Some [''RE 5'']), st1, env1)
       \<and> connections 130 131 st1 env1 = (Inr (Some [''RE 5'']), st1, env1)
       \<and> connections 161 161 st1 env1 = (Inr (Some [''RE 5'']), st1, env1)
       \<and> connections 162 163 st1 env1 = (r4, st4, env4)
       \<and> cache_valid_until st1 = 161
       \<and> calls env1 = calls env0 + 1 \<and> calls env4 = calls env0 + 2)
   \<and> lazy_func st_none = Some f_none
   \<and> connections_field st_none = None
   \<and> (\<forall>w. \<exists>w'. f_none (station_id st_none) w = (Inr None, w'))
   \<and> calls (snd (snd (reads [(100, 101), (102, 103)] st_none env0)))
        = calls env0 + length [(100 :: rat, 101 :: rat), (102, 103)]"
proof -
  define st1 where "st1 = st_some\<lparr>connections_field := Some [''RE 5''], cache_valid_until := 161\<rparr>"
  define env1 where "env1 = \<lparr>world = (), calls = 1\<rparr>"
  define st4 where "st4 = st1\<lparr>cache_valid_until := 223\<rparr>"
  define env4 where "env4 = \<lparr>world = (), calls = 2\<rparr>"
  have h1: "lazy_func st_some = Some f_some"
    by (simp add: st_some_def LazyStation_init_def)
  have h2: "cache_valid_until st_some < 100 \<or> connections_field st_some = None"
    by (simp add: st_some_def LazyStation_init_def)
  have h3: "f_some (station_id st_some) (world env0) = (Inr (Some [''RE 5'']), ())"
    by (simp add: f_some_def)
  have h4: "float_add_int 101 (cache_timeout st_some) = Inr 161"
    by (simp add: st_some_def LazyStation_init_def double_sums)
  have h5: "(130::rat) \<le> 161" and h7: "(161::rat) \<le> 161" and h9: "(161::rat) < 162"
    by simp_all
  have r1: "connections 100 101 st_some env0 = (Inr (Some [''RE 5'']), st1, env1)"
    by (simp add: connections_def request_data_def st_some_def LazyStation_init_def
        f_some_def env0_def st1_def env1_def double_sums)
  have r2: "connections 130 131 st1 env1 = (Inr (Some [''RE 5'']), st1, env1)"
    by (simp add: connections_def st_some_def LazyStation_init_def st1_def)
  have r3: "connections 161 161 st1 env1 = (Inr (Some [''RE 5'']), st1, env1)"
    by (simp add: connections_def st_some_def LazyStation_init_def st1_def)
  have r4: "connections 162 163 st1 env1 = (Inr (Some [''RE 5'']), st4, env4)"
    by (simp add: connections_def request_data_def st_some_def LazyStation_init_def
        f_some_def st1_def env1_def st4_def env4_def double_sums)
  have all: "(cache_valid_until st_some < 100 \<or> connections_field st_some = None)
          \<and> f_some (station_id st_some) (world env0) = (Inr (Some [''RE 5'']), ())
          \<and> float_add_int 101 (cache_timeout st_some) = Inr 161
          \<and> connections 100 101 st_some env0 = (Inr (Some [''RE 5'']), st1, env1)
          \<and> 130 \<le> (161::rat) \<and> connections 130 131 st1 env1 = (Inr (Some [''RE 5'']), st1, env1)
          \<and> 161 \<le> (161::rat) \<and> connections 161 161 st1 env1 = (Inr (Some [''RE 5'']), st1, env1)
          \<and> (161::rat) < 162 \<and> connections 162 163 st1 env1 = (Inr (Some [''RE 5'']), st4, env4)"
    using h2 h3 h4 r1 h5 r2 h7 r3 h9 r4 by (intro conjI)
  note first = one_fetch_per_window [OF h1, THEN conjunct1, THEN mp, OF all]
  from first have u1: "cache_valid_until st1 = 161"
    and c1: "calls env1 = calls env0 + 1" and c4: "calls env4 = calls env0 + 2"
    by simp_all
  have ex: "\<exists>st1 env1 st4 env4 r4.
         connections 100 101 st_some env0 = (Inr (Some [''RE 5'']), st1, env1)
       \<and> connections 130 131 st1 env1 = (Inr (Some [''RE 5'']), st1, env1)
       \<and> connections 161 161 st1 env1 = (Inr (Some [''RE 5'']), st1, env1)
       \<and> connections 162 163 st1 env1 = (r4, st4, env4)
       \<and> cache_valid_until st1 = 161
       \<and> calls env1 = calls env0 + 1 \<and> calls env4 = calls env0 + 2"
    using r1 r2 r3 r4 u1 c1 c4 by (intro exI conjI)
  have n1: "lazy_func st_none = Some f_none"
    by (simp add: st_none_def LazyStation_init_def)
  have n2: "connections_field st_none = None"
    by (simp add: st_none_def LazyStation_init_def)
  have n3: "\<forall>w. \<exists>w'. f_none (station_id st_none) w = (Inr None, w')"
    by (simp add: f_none_def)
  have n23: "connections_field st_none = None
          \<and> (\<forall>w. \<exists>w'. f_none (station_id st_none) w = (Inr None, w'))"
    using n2 n3 by (intro conjI)
  note second = one_fetch_per_window [OF n1,
      where ts = "[(100, 101), (102, 103)]" and env = env0, THEN conjunct2, THEN mp, OF n23]
  from h1 h2 h3 h4 h5 h7 h9 ex n1 n2 n3 second show ?thesis
    by (intro conjI)
qed

text \<open>
  When the callback returns \<^verbatim>\<open>None\<close>, the station takes the cache for empty: a second
  read at 102, before the expiry 161 that the first read stored, calls the callback again.
  Two reads, two calls. And the window is not one of \<open>T\<close> seconds on the clock: a result
  stored at the double nearest to 0.7 with \<open>T = 60\<close> is still served from the cache at
  the double nearest to 60.7, more than 60 seconds later, because the float sum that
  gives the expiry is rounded up to that very double. Two reads, one call.
\<close>

theorem absent_result_is_fetched_again:
  "cache_valid_until (fst (snd (reads [(100, 101)] st_none env0))) = 161 \<and>
   (102 :: rat) \<le> 161 \<and>
   fst (reads [(100, 101), (102, 103)] st_none env0) = [Inr None, Inr None] \<and>
   calls env0 = 0 \<and>
   calls (snd (snd (reads [(100, 101), (102, 103)] st_none env0))) = 2 \<and>
   cache_timeout st_some = 60 \<and>
   60 < clock_607 - clock_07 \<and>
   fst (reads [(clock_07, clock_07), (clock_607, clock_607)] st_some env0)
     = [Inr (Some [''RE 5'']), Inr (Some [''RE 5''])] \<and>
   calls (snd (snd (reads [(clock_07, clock_07), (clock_607, clock_607)] st_some env0))) = 1"
  using clock_07_facts
  by (simp add: connections_def request_data_def st_none_def st_some_def LazyStation_init_def
      f_none_def f_some_def env0_def double_sums)

end
